theory Spec2Isabelle
  imports Main
begin

section \<open>Python text\<close>

text \<open>
  A Python \<^verbatim>\<open>str\<close> is a sequence of Unicode code points, so a text is a list of code
  points (natural numbers); \<open>lit\<close> writes a text from an ASCII literal.
\<close>

type_synonym str = "nat list"

definition lit :: "string \<Rightarrow> str" where
  "lit s = map of_char s"

text \<open>
  \<^verbatim>\<open>str.isspace\<close> on one code point, which is also the separator test of
  \<^verbatim>\<open>str.split()\<close> without arguments: the code points CPython lists as whitespace.
\<close>

definition isspace :: "nat \<Rightarrow> bool" where
  "isspace c \<longleftrightarrow>
     (0x09 \<le> c \<and> c \<le> 0x0D) \<or> (0x1C \<le> c \<and> c \<le> 0x20) \<or> c = 0x85 \<or> c = 0xA0 \<or>
     c = 0x1680 \<or> (0x2000 \<le> c \<and> c \<le> 0x200A) \<or> c = 0x2028 \<or> c = 0x2029 \<or>
     c = 0x202F \<or> c = 0x205F \<or> c = 0x3000"

text \<open>
  \<^verbatim>\<open>content.split()\<close>: the maximal runs of non-whitespace code points, in order.
  \<open>split_from w s\<close> scans \<open>s\<close> with the token \<open>w\<close> read so far.
\<close>

fun split_from :: "str \<Rightarrow> str \<Rightarrow> str list" where
  "split_from w [] = (if w = [] then [] else [w])"
| "split_from w (c # cs) =
     (if isspace c then (if w = [] then split_from [] cs else w # split_from [] cs)
      else split_from (w @ [c]) cs)"

definition str_split :: "str \<Rightarrow> str list" where
  "str_split s = split_from [] s"

text \<open>\<^verbatim>\<open>content.count(p)\<close> for a one-character \<open>p\<close>.\<close>

definition str_count :: "str \<Rightarrow> nat \<Rightarrow> nat" where
  "str_count s p = length (filter (\<lambda>c. c = p) s)"

text \<open>Truthiness of an optional text, and \<^verbatim>\<open>x or ""\<close>.\<close>

definition truthy :: "str option \<Rightarrow> bool" where
  "truthy x = (case x of None \<Rightarrow> False | Some t \<Rightarrow> t \<noteq> [])"

definition or_empty :: "str option \<Rightarrow> str" where
  "or_empty x = (case x of None \<Rightarrow> [] | Some t \<Rightarrow> if t \<noteq> [] then t else [])"

section \<open>Chunks of a streamed completion\<close>

text \<open>
  What the loops read of a chunk: \<^verbatim>\<open>chunk.choices[0].delta.content\<close> and
  \<^verbatim>\<open>chunk.choices[0].delta.function_call\<close> with its \<^verbatim>\<open>name\<close> and
  \<^verbatim>\<open>arguments\<close>; each of them may be \<^verbatim>\<open>None\<close>, and \<^verbatim>\<open>choices\<close> is a list.
\<close>

datatype function_call = FunctionCall (name: "str option") (arguments: "str option")

datatype delta = Delta (content: "str option") (function_call: "function_call option")

datatype choice = Choice (delta: delta)

datatype chunk = Chunk (choices: "choice list")

text \<open>
  Exceptions: \<^verbatim>\<open>chunk.choices[0]\<close> on an empty list, an error raised by the client or
  the stream (a subclass of \<^verbatim>\<open>Exception\<close>, with its message), the error of a text
  that cannot be read as console markup (with its message), and the interruption of the
  run by the user, which is no subclass of \<^verbatim>\<open>Exception\<close>.
\<close>

datatype exn = IndexError | StreamError str | MarkupError str | KeyboardInterrupt

fun is_Exception :: "exn \<Rightarrow> bool" where
  "is_Exception KeyboardInterrupt = False"
| "is_Exception _ = True"

text \<open>\<^verbatim>\<open>str(e)\<close>, as the handlers format it into their message.\<close>

fun message :: "exn \<Rightarrow> str" where
  "message IndexError = lit ''list index out of range''"
| "message (StreamError m) = m"
| "message (MarkupError m) = m"
| "message KeyboardInterrupt = []"

text \<open>
  main.py prints through \<^verbatim>\<open>console.print\<close> of the rich library, which reads every text
  it is given as console markup and raises \<^verbatim>\<open>MarkupError\<close> on a text it cannot read (a
  closing tag that matches no open tag, for one). The library is not part of the
  repository, so its reading is a parameter of the model: \<open>None\<close> for a text that renders,
  \<open>Some m\<close> for a text on which it raises with the message \<open>m\<close>. simple\_example.py prints
  with the built-in \<^verbatim>\<open>print\<close>, which reads nothing.
\<close>

type_synonym markup = "str \<Rightarrow> str option"

definition first_delta :: "chunk \<Rightarrow> exn + delta" where
  "first_delta chunk = (case choices chunk of [] \<Rightarrow> Inl IndexError | ch # _ \<Rightarrow> Inr (delta ch))"

text \<open>
  \<^verbatim>\<open>async for chunk in stream: body\<close>. The stream yields \<open>chunks\<close> and then either
  ends (\<open>None\<close>) or raises (\<open>Some e\<close>); a request that fails before the first chunk is
  the stream with no chunk that raises. The loop stops at the first exception, of the
  body or of the stream, and gives it with the local state of that moment: a body that
  raises gives the exception with the locals as they are at the raise.
\<close>

fun async_for ::
    "('s \<Rightarrow> chunk \<Rightarrow> exn \<times> 's + 's) \<Rightarrow> 's \<Rightarrow> chunk list \<Rightarrow> exn option \<Rightarrow> exn \<times> 's + 's" where
  "async_for body s [] None = Inr s"
| "async_for body s [] (Some e) = Inl (e, s)"
| "async_for body s (c # cs) fault =
     (case body s c of Inl x \<Rightarrow> Inl x | Inr s' \<Rightarrow> async_for body s' cs fault)"

section \<open>Collecting the full response (simple\_example.py, main.py)\<close>

text \<open>
  What is written to the terminal, one event per call of \<^verbatim>\<open>print\<close>: a line whose text
  does not depend on the stream (\<open>Fixed\<close>), a piece of content echoed as it arrives, the
  collected response, the message of a caught exception, the notice of an interruption.
\<close>

datatype out = Fixed | Echo str | Collected str | Error exn | Interrupted

record collection =
  full_response :: str
  stdout :: "out list"

text \<open>The body of the loop of \<^verbatim>\<open>streaming_with_collection\<close> (simple\_example.py, 77 to 80).\<close>

definition collect_chunk :: "collection \<Rightarrow> chunk \<Rightarrow> exn \<times> collection + collection" where
  "collect_chunk st chunk =
     (case first_delta chunk of
        Inl e \<Rightarrow> Inl (e, st)
      | Inr d \<Rightarrow>
          (case content d of
             None \<Rightarrow> Inr st
           | Some c \<Rightarrow>
               Inr (st\<lparr>full_response := full_response st @ c, stdout := stdout st @ [Echo c]\<rparr>)))"

text \<open>
  \<^verbatim>\<open>streaming_with_collection\<close>, run on a terminal that shows \<open>out\<close>: the result is what
  the coroutine gives (\<open>Inr ()\<close> when it returns, \<open>Inl e\<close> when \<open>e\<close> leaves it) and the
  terminal afterwards.
\<close>

definition streaming_with_collection ::
    "chunk list \<Rightarrow> exn option \<Rightarrow> out list \<Rightarrow> (exn + unit) \<times> out list" where
  "streaming_with_collection chunks fault out0 =
     (case async_for collect_chunk \<lparr>full_response = [], stdout = out0 @ [Fixed, Fixed]\<rparr> chunks fault of
        Inr st \<Rightarrow> (Inr (), stdout st @ [Fixed, Fixed, Collected (full_response st)])
      | Inl (e, st) \<Rightarrow>
          if is_Exception e then (Inr (), stdout st @ [Error e]) else (Inl e, stdout st))"

text \<open>
  The body of the loop of \<^verbatim>\<open>basic_streaming_demo\<close> (main.py, 72 to 75): the content is
  appended to \<^verbatim>\<open>full_response\<close> first and echoed through \<^verbatim>\<open>console.print\<close> next, so
  content that does not render leaves the loop with the response already extended and
  nothing echoed.
\<close>

definition basic_chunk :: "markup \<Rightarrow> collection \<Rightarrow> chunk \<Rightarrow> exn \<times> collection + collection" where
  "basic_chunk markup st chunk =
     (case first_delta chunk of
        Inl e \<Rightarrow> Inl (e, st)
      | Inr d \<Rightarrow>
          (case content d of
             None \<Rightarrow> Inr st
           | Some c \<Rightarrow>
               (let st1 = st\<lparr>full_response := full_response st @ c\<rparr>
                in case markup c of
                     Some m \<Rightarrow> Inl (MarkupError m, st1)
                   | None \<Rightarrow> Inr (st1\<lparr>stdout := stdout st1 @ [Echo c]\<rparr>))))"

text \<open>
  The handler of \<^verbatim>\<open>basic_streaming_demo\<close> (main.py, 80 and 81): it prints the exception
  inside markup of its own, through \<^verbatim>\<open>console.print\<close>; when that text does not render,
  the \<^verbatim>\<open>MarkupError\<close> leaves the function.
\<close>

definition error_line :: "exn \<Rightarrow> str" where
  "error_line e = lit ''[red]Error during streaming: '' @ message e @ lit ''[/red]''"

definition report_error :: "markup \<Rightarrow> exn \<Rightarrow> out list \<Rightarrow> (exn + unit) \<times> out list" where
  "report_error markup e out1 =
     (case markup (error_line e) of
        None \<Rightarrow> (Inr (), out1 @ [Error e])
      | Some m \<Rightarrow> (Inl (MarkupError m), out1))"

text \<open>
  \<^verbatim>\<open>basic_streaming_demo\<close>: after the loop the collected response is printed in a panel,
  whose text is read as markup too, still inside \<^verbatim>\<open>try\<close>.
\<close>

definition basic_streaming_demo ::
    "markup \<Rightarrow> chunk list \<Rightarrow> exn option \<Rightarrow> out list \<Rightarrow> (exn + unit) \<times> out list" where
  "basic_streaming_demo markup chunks fault out0 =
     (case async_for (basic_chunk markup) \<lparr>full_response = [], stdout = out0 @ [Fixed]\<rparr> chunks fault of
        Inr st \<Rightarrow>
          (case markup (full_response st) of
             None \<Rightarrow> (Inr (), stdout st @ [Fixed, Collected (full_response st)])
           | Some m \<Rightarrow> report_error markup (MarkupError m) (stdout st @ [Fixed]))
      | Inl (e, st) \<Rightarrow>
          if is_Exception e then report_error markup e (stdout st) else (Inl e, stdout st))"

text \<open>
  One round of the loop of \<^verbatim>\<open>main\<close> in simple\_example.py: the example runs under
  \<^verbatim>\<open>asyncio.run\<close> inside \<^verbatim>\<open>try\<close>, with a handler for \<^verbatim>\<open>KeyboardInterrupt\<close> and one
  for \<^verbatim>\<open>Exception\<close>. The round gives the terminal afterwards and nothing else.
\<close>

definition run_example ::
    "(out list \<Rightarrow> (exn + unit) \<times> out list) \<Rightarrow> out list \<Rightarrow> out list" where
  "run_example example_func out0 =
     (case example_func (out0 @ [Fixed, Fixed]) of
        (Inr u, out1) \<Rightarrow> out1 @ [Fixed]
      | (Inl e, out1) \<Rightarrow>
          (case e of
             KeyboardInterrupt \<Rightarrow> out1 @ [Interrupted, Fixed]
           | _ \<Rightarrow> out1 @ [Error e, Fixed]))"

section \<open>Real-time statistics (main.py, real\_time\_processing\_demo)\<close>

record stats =
  current_sentence :: str
  word_count :: int
  sentence_count :: int

text \<open>Lines 205 and 206: the sentence count after a piece of content.\<close>

definition count_sentences :: "int \<Rightarrow> str \<Rightarrow> int" where
  "count_sentences n c =
     (if list_ex (\<lambda>punct. punct \<in> set c) (lit ''.!?'')
      then n + (int (str_count c (of_char CHR ''.'')) + int (str_count c (of_char CHR ''!''))
                + int (str_count c (of_char CHR ''?'')))
      else n)"

definition real_time_chunk :: "stats \<Rightarrow> chunk \<Rightarrow> exn \<times> stats + stats" where
  "real_time_chunk st chunk =
     (case first_delta chunk of
        Inl e \<Rightarrow> Inl (e, st)
      | Inr d \<Rightarrow>
          (case content d of
             None \<Rightarrow> Inr st
           | Some c \<Rightarrow>
               Inr \<lparr>current_sentence = current_sentence st @ c,
                    word_count = word_count st + int (length (str_split c)),
                    sentence_count = count_sentences (sentence_count st) c\<rparr>))"

text \<open>
  The loop of \<^verbatim>\<open>real_time_processing_demo\<close> from its initial counters. The live table
  is redrawn from the three fields after every chunk with content and holds nothing else,
  so it is not a field of its own.
\<close>

definition real_time_processing_demo :: "chunk list \<Rightarrow> exn option \<Rightarrow> exn \<times> stats + stats" where
  "real_time_processing_demo chunks fault =
     async_for real_time_chunk \<lparr>current_sentence = [], word_count = 0, sentence_count = 0\<rparr> chunks fault"

section \<open>Function calls (main.py, function\_calling\_streaming\_demo)\<close>

text \<open>
  A recorded call is the dictionary with the keys \<^verbatim>\<open>"name"\<close> and \<^verbatim>\<open>"arguments"\<close>.
  The loop keeps two lists.
\<close>

record call =
  call_name :: str
  call_arguments :: str

record calling =
  function_calls :: "call list"
  content_parts :: "str list"

text \<open>\<^verbatim>\<open>function_calls[-1]["arguments"] += a\<close>, under \<^verbatim>\<open>if function_calls:\<close>.\<close>

definition extend_last :: "call list \<Rightarrow> str \<Rightarrow> call list" where
  "extend_last cs a =
     (if cs \<noteq> []
      then butlast cs @ [(last cs)\<lparr>call_arguments := call_arguments (last cs) @ a\<rparr>]
      else cs)"

text \<open>Lines 139 to 148: what the function call of a delta does to the recorded calls.\<close>

definition record_call :: "call list \<Rightarrow> function_call option \<Rightarrow> call list" where
  "record_call cs f =
     (case f of
        None \<Rightarrow> cs
      | Some fc \<Rightarrow>
          if truthy (name fc)
          then cs @ [\<lparr>call_name = or_empty (name fc), call_arguments = or_empty (arguments fc)\<rparr>]
          else if truthy (arguments fc)
          then extend_last cs (or_empty (arguments fc))
          else cs)"

text \<open>
  The body of the loop (lines 134 to 148): content is appended to \<^verbatim>\<open>content_parts\<close> and
  then printed through \<^verbatim>\<open>console.print\<close>; content that does not render leaves the loop
  there, before the function call of the same chunk is looked at.
\<close>

definition function_calling_chunk :: "markup \<Rightarrow> calling \<Rightarrow> chunk \<Rightarrow> exn \<times> calling + calling" where
  "function_calling_chunk markup st chunk =
     (case first_delta chunk of
        Inl e \<Rightarrow> Inl (e, st)
      | Inr d \<Rightarrow>
          (case content d of
             None \<Rightarrow> Inr (st\<lparr>function_calls := record_call (function_calls st) (function_call d)\<rparr>)
           | Some c \<Rightarrow>
               (let st1 = st\<lparr>content_parts := content_parts st @ [c]\<rparr>
                in case markup c of
                     Some m \<Rightarrow> Inl (MarkupError m, st1)
                   | None \<Rightarrow>
                       Inr (st1\<lparr>function_calls :=
                              record_call (function_calls st1) (function_call d)\<rparr>))))"

text \<open>The loop of \<^verbatim>\<open>function_calling_streaming_demo\<close> from its two empty lists.\<close>

definition function_calling_streaming_demo ::
    "markup \<Rightarrow> chunk list \<Rightarrow> exn option \<Rightarrow> exn \<times> calling + calling" where
  "function_calling_streaming_demo markup chunks fault =
     async_for (function_calling_chunk markup) \<lparr>function_calls = [], content_parts = []\<rparr> chunks fault"

section \<open>Vocabulary of the specification\<close>

text \<open>
  The chunk that carries one content fragment and nothing else: a single choice whose
  delta has the text as content and no function call.
\<close>

definition content_chunk :: "str \<Rightarrow> chunk" where
  "content_chunk t = Chunk [Choice (Delta (Some t) None)]"

text \<open>The local state with which a loop is left, by its end or by an exception.\<close>

fun locals_of :: "exn \<times> 's + 's \<Rightarrow> 's" where
  "locals_of (Inr s) = s"
| "locals_of (Inl (e, s)) = s"

text \<open>
  The sentence count as the specification words it: the number of full stops, exclamation
  marks and question marks of the fragment is added whatever the fragment holds.
\<close>

definition add_terminators :: "int \<Rightarrow> str \<Rightarrow> int" where
  "add_terminators n c =
     n + (int (str_count c (of_char CHR ''.'')) + int (str_count c (of_char CHR ''!''))
          + int (str_count c (of_char CHR ''?'')))"

text \<open>
  The content fragments of a chunk sequence, in arrival order: the content of the first
  choice of every chunk that has one.
\<close>

definition chunk_content :: "chunk \<Rightarrow> str option" where
  "chunk_content chunk = (case choices chunk of [] \<Rightarrow> None | ch # _ \<Rightarrow> content (delta ch))"

definition content_texts :: "chunk list \<Rightarrow> str list" where
  "content_texts chunks = List.map_filter chunk_content chunks"



text \<open>The chunks that carry one start, and one arguments delta, and nothing else.\<close>

definition start_chunk :: "str \<Rightarrow> chunk" where
  "start_chunk n = Chunk [Choice (Delta None (Some (FunctionCall (Some n) None)))]"

definition args_chunk :: "str \<Rightarrow> chunk" where
  "args_chunk a = Chunk [Choice (Delta None (Some (FunctionCall None (Some a))))]"




text \<open>
  The whitespace-delimited tokens of a text, counted without splitting it: a token begins
  at every position that holds a character other than whitespace and is either the first
  position or preceded by whitespace. \<open>starts_from p s\<close> is the same count for a text
  \<open>s\<close> that continues another one, \<open>p\<close> telling whether whitespace precedes it.
\<close>

definition token_starts :: "str \<Rightarrow> nat list" where
  "token_starts s =
     filter (\<lambda>i. \<not> isspace (s ! i) \<and> (i = 0 \<or> isspace (s ! (i - 1)))) [0..<length s]"

definition starts_from :: "bool \<Rightarrow> str \<Rightarrow> nat" where
  "starts_from p s =
     length (filter (\<lambda>i. \<not> isspace (s ! i) \<and> (if i = 0 then p else isspace (s ! (i - 1))))
       [0..<length s])"

text \<open>
  A chunk is rendered when it has no content or content that the console reads. The loops
  of main.py, run on chunks that all have a first choice, have consumed the chunks up to
  and including the first that is not rendered: its content is appended before the print
  that fails.
\<close>

definition rendered :: "markup \<Rightarrow> chunk \<Rightarrow> bool" where
  "rendered markup c = (case chunk_content c of None \<Rightarrow> True | Some t \<Rightarrow> markup t = None)"


text \<open>A reading of markup that refuses one text, with a message, and renders every other.\<close>

definition refusing :: "str \<Rightarrow> str \<Rightarrow> markup" where
  "refusing t m = (\<lambda>x. if x = t then Some m else None)"

section \<open>Counting words and sentences\<close>

text \<open>
  What \<open>str_split\<close> returns: its tokens are not empty and hold no whitespace, joined they
  are the text without its whitespace, and there are as many as tokens begin in the text.
\<close>

lemma concat_split_from:
  "concat (split_from w s) = w @ filter (\<lambda>c. \<not> isspace c) s"
  by (induction s arbitrary: w) simp_all

lemma split_from_tokens:
  "t \<in> set (split_from w s) \<Longrightarrow> list_all (\<lambda>c. \<not> isspace c) w \<Longrightarrow>
     t \<noteq> [] \<and> list_all (\<lambda>c. \<not> isspace c) t"
proof (induction s arbitrary: w)
  case Nil
  then show ?case by (auto split: if_splits)
next
  case (Cons c s)
  show ?case
  proof (cases "isspace c")
    case True
    with Cons.prems have "t = w \<and> w \<noteq> [] \<or> t \<in> set (split_from [] s)"
      by (auto split: if_splits)
    then show ?thesis using Cons.IH [of "[]"] Cons.prems(2) by auto
  next
    case False
    with Cons.prems have "t \<in> set (split_from (w @ [c]) s)" by simp
    then show ?thesis using Cons.IH [of "w @ [c]"] Cons.prems(2) False by simp
  qed
qed

lemma str_split_tokens:
  "concat (str_split s) = filter (\<lambda>c. \<not> isspace c) s"
  "t \<in> set (str_split s) \<Longrightarrow> t \<noteq> [] \<and> list_all (\<lambda>c. \<not> isspace c) t"
  using split_from_tokens [of t "[]" s] by (simp_all add: str_split_def concat_split_from)

lemma starts_from_Nil: "starts_from p [] = 0"
  by (simp add: starts_from_def)

lemma starts_from_Cons:
  "starts_from p (c # cs) = (if \<not> isspace c \<and> p then 1 else 0) + starts_from (isspace c) cs"
proof -
  have "[0..<Suc (length cs)] = 0 # [Suc 0..<Suc (length cs)]"
    by (rule upt_conv_Cons) simp
  then have upt: "[0..<length (c # cs)] = 0 # map Suc [0..<length cs]"
    by (simp only: map_Suc_upt length_Cons)
  have shift: "(\<lambda>i. \<not> isspace ((c # cs) ! i) \<and>
                  (if i = 0 then p else isspace ((c # cs) ! (i - 1)))) \<circ> Suc
             = (\<lambda>i. \<not> isspace (cs ! i) \<and> (if i = 0 then isspace c else isspace (cs ! (i - 1))))"
    by (rule ext) (simp add: nth_Cons')
  show ?thesis
    unfolding starts_from_def upt by (simp add: filter_map shift)
qed

lemma length_split_from:
  "length (split_from w s) = (if w = [] then starts_from True s else 1 + starts_from False s)"
  by (induction s arbitrary: w) (simp_all add: starts_from_Nil starts_from_Cons)

lemma starts_from_True: "starts_from True s = length (token_starts s)"
proof -
  have "(\<lambda>i. \<not> isspace (s ! i) \<and> (if i = 0 then True else isspace (s ! (i - 1))))
      = (\<lambda>i. \<not> isspace (s ! i) \<and> (i = 0 \<or> isspace (s ! (i - 1))))"
    by (rule ext) simp
  then show ?thesis by (simp add: starts_from_def token_starts_def)
qed

lemma length_str_split: "length (str_split s) = length (token_starts s)"
  by (simp add: str_split_def length_split_from starts_from_True)

lemma str_count_absent: "p \<notin> set c \<Longrightarrow> str_count c p = 0"
  by (induction c) (auto simp: str_count_def)

lemma lit_punct: "lit ''.!?'' = [of_char CHR ''.'', of_char CHR ''!'', of_char CHR ''?'']"
  by (simp add: lit_def)

lemma count_sentences_sum:
  "count_sentences n c =
     n + (int (str_count c (of_char CHR ''.'')) + int (str_count c (of_char CHR ''!''))
          + int (str_count c (of_char CHR ''?'')))"
  by (simp add: count_sentences_def lit_punct str_count_absent)

lemma terminators_filter:
  "str_count c (of_char CHR ''.'') + str_count c (of_char CHR ''!'') + str_count c (of_char CHR ''?'')
     = length (filter (\<lambda>x. x \<in> set (lit ''.!?'')) c)"
  by (induction c) (auto simp: str_count_def lit_def)

lemma count_sentences_filter:
  "count_sentences n c = n + int (length (filter (\<lambda>x. x \<in> set (lit ''.!?'')) c))"
  unfolding count_sentences_sum terminators_filter [symmetric] by simp

lemma real_time_chunk_content:
  "real_time_chunk st (Chunk (Choice (Delta (Some c) fc) # rest)) =
     Inr \<lparr>current_sentence = current_sentence st @ c,
          word_count = word_count st + int (length (token_starts c)),
          sentence_count = sentence_count st + int (length (filter (\<lambda>x. x \<in> set (lit ''.!?'')) c))\<rparr>"
  by (simp add: real_time_chunk_def first_delta_def count_sentences_filter length_str_split)

lemma real_time_contents:
  "async_for real_time_chunk st (map content_chunk ts) None =
     Inr \<lparr>current_sentence = current_sentence st @ concat ts,
          word_count = word_count st + (\<Sum>t\<leftarrow>ts. int (length (token_starts t))),
          sentence_count = sentence_count st
             + (\<Sum>t\<leftarrow>ts. int (length (filter (\<lambda>x. x \<in> set (lit ''.!?'')) t)))\<rparr>"
proof (induction ts arbitrary: st)
  case Nil
  show ?case by simp
next
  case (Cons t ts)
  show ?case
    by (simp add: content_chunk_def real_time_chunk_content Cons.IH [unfolded content_chunk_def] add.assoc)
qed

lemma real_time_chunk_mono:
  "real_time_chunk st chunk = Inr st' \<Longrightarrow>
     word_count st \<le> word_count st' \<and> sentence_count st \<le> sentence_count st'"
  by (auto simp: real_time_chunk_def count_sentences_filter split: sum.splits option.splits)

lemma real_time_chunk_raise: "real_time_chunk st chunk = Inl x \<Longrightarrow> snd x = st"
  by (auto simp: real_time_chunk_def split: sum.splits option.splits)

text \<open>
  C10. The guarded update of lines 205 and 206 (the three counts are added only when one
  of the three characters occurs in the content) gives, for every count so far and every
  text, the same sentence count as adding the three counts unconditionally.
\<close>

theorem guarded_sentence_update_is_sum: "count_sentences n c = add_terminators n c"
  by (simp add: count_sentences_sum add_terminators_def)

lemma async_for_append:
  "async_for body st (xs @ ys) fault =
     (case async_for body st xs None of
        Inl x \<Rightarrow> Inl x
      | Inr st' \<Rightarrow> async_for body st' ys fault)"
  by (induction xs arbitrary: st) (auto split: sum.splits)

lemma async_for_real_time_mono:
  "word_count st \<le> word_count (locals_of (async_for real_time_chunk st chunks fault)) \<and>
   sentence_count st \<le> sentence_count (locals_of (async_for real_time_chunk st chunks fault))"
proof (induction chunks arbitrary: st)
  case Nil
  show ?case by (cases fault) simp_all
next
  case (Cons c cs)
  show ?case
  proof (cases "real_time_chunk st c")
    case (Inl x)
    with real_time_chunk_raise [OF Inl] show ?thesis by (cases x) simp
  next
    case (Inr st1)
    from real_time_chunk_mono [OF Inr] Cons.IH [of st1] Inr
    show ?thesis by auto
  qed
qed

text \<open>
  C3 (as amended). Consuming the three content fragments "Hello ", "world", "!" in that
  order ends with the text "Hello world!", a word count of 3 and a sentence count of 1:
  each fragment is split on its own, and "!" on its own is one token.
\<close>

theorem hello_world_statistics:
  "real_time_processing_demo
     [content_chunk (lit ''Hello ''), content_chunk (lit ''world''), content_chunk (lit ''!'')] None
   = Inr \<lparr>current_sentence = lit ''Hello world!'', word_count = 3, sentence_count = 1\<rparr>"
  by (simp add: real_time_processing_demo_def content_chunk_def real_time_chunk_def first_delta_def
      count_sentences_def str_split_def str_count_def lit_def isspace_def)

text \<open>
  C3 as stated fails: after the three fragments the word count is 3, not 2.
\<close>

theorem hello_world_word_count_counterexample:
  "word_count (locals_of (real_time_processing_demo
     [content_chunk (lit ''Hello ''), content_chunk (lit ''world''), content_chunk (lit ''!'')] None)) = 3
   \<and> word_count (locals_of (real_time_processing_demo
     [content_chunk (lit ''Hello ''), content_chunk (lit ''world''), content_chunk (lit ''!'')] None)) \<noteq> 2"
  by (simp add: real_time_processing_demo_def content_chunk_def real_time_chunk_def first_delta_def
      count_sentences_def str_split_def str_count_def lit_def isspace_def)

text \<open>
  C4. A chunk whose first choice carries the content \<open>c\<close> adds to the word count the
  number of whitespace-delimited tokens of \<open>c\<close> alone (the number of positions of \<open>c\<close>
  at which a token begins) and to the sentence count the number of characters of \<open>c\<close>
  that are one of \<open>.\<close>, \<open>!\<close>, \<open>?\<close>, whatever text has been accumulated before; so after a
  sequence of content fragments each counter is the sum, over the fragments, of the count
  of the fragment taken alone.
\<close>

theorem counts_added_per_fragment:
  "real_time_chunk st (Chunk (Choice (Delta (Some c) fc) # rest)) =
     Inr \<lparr>current_sentence = current_sentence st @ c,
          word_count = word_count st + int (length (token_starts c)),
          sentence_count = sentence_count st + int (length (filter (\<lambda>x. x \<in> set (lit ''.!?'')) c))\<rparr>
   \<and> real_time_processing_demo (map content_chunk ts) None =
     Inr \<lparr>current_sentence = concat ts,
          word_count = (\<Sum>t\<leftarrow>ts. int (length (token_starts t))),
          sentence_count = (\<Sum>t\<leftarrow>ts. int (length (filter (\<lambda>x. x \<in> set (lit ''.!?'')) t)))\<rparr>"
  by (simp add: real_time_chunk_content real_time_processing_demo_def real_time_contents)

theorem counts_added_per_fragment_witness:
  "token_starts (lit '' so it goes.  Or not?'') = [1, 4, 7, 14, 17]
   \<and> real_time_chunk \<lparr>current_sentence = lit ''Well'', word_count = 1, sentence_count = 0\<rparr>
       (content_chunk (lit '' so it goes.  Or not?''))
     = Inr \<lparr>current_sentence = lit ''Well so it goes.  Or not?'', word_count = 6, sentence_count = 2\<rparr>"
proof -
  have starts: "token_starts (lit '' so it goes.  Or not?'') = [1, 4, 7, 14, 17]"
    by (simp add: token_starts_def lit_def isspace_def upt_rec)
  have marks: "filter (\<lambda>x. x \<in> set (lit ''.!?'')) (lit '' so it goes.  Or not?'') = lit ''.?''"
    by (simp add: lit_def)
  from counts_added_per_fragment
    [of "\<lparr>current_sentence = lit ''Well'', word_count = 1, sentence_count = 0\<rparr>"
      "lit '' so it goes.  Or not?''" None "[]" "[]"]
  have "real_time_chunk \<lparr>current_sentence = lit ''Well'', word_count = 1, sentence_count = 0\<rparr>
       (content_chunk (lit '' so it goes.  Or not?''))
     = Inr \<lparr>current_sentence = lit ''Well'' @ lit '' so it goes.  Or not?'',
            word_count = 1 + int (length (token_starts (lit '' so it goes.  Or not?''))),
            sentence_count = 0 + int (length (filter (\<lambda>x. x \<in> set (lit ''.!?''))
                                               (lit '' so it goes.  Or not?'')))\<rparr>"
    by (simp add: content_chunk_def)
  then show ?thesis unfolding starts marks by (simp add: starts lit_def)
qed

text \<open>
  C8. From any state and over any chunks, whether the loop ends or is left by an
  exception, the word count and the sentence count it is left with are at least those it
  started with; and in one consumption the counters after the first \<open>i\<close> chunks are at
  most those after the first \<open>i + k\<close> chunks.
\<close>

theorem counters_never_decrease:
  "word_count st \<le> word_count (locals_of (async_for real_time_chunk st chunks fault))
   \<and> sentence_count st \<le> sentence_count (locals_of (async_for real_time_chunk st chunks fault))
   \<and> word_count (locals_of (real_time_processing_demo (take i chunks) None))
       \<le> word_count (locals_of (real_time_processing_demo (take (i + k) chunks) None))
   \<and> sentence_count (locals_of (real_time_processing_demo (take i chunks) None))
       \<le> sentence_count (locals_of (real_time_processing_demo (take (i + k) chunks) None))"
proof -
  let ?s0 = "\<lparr>current_sentence = [], word_count = 0, sentence_count = 0\<rparr>"
  have later: "word_count (locals_of (async_for real_time_chunk ?s0 (take i chunks) None))
        \<le> word_count (locals_of (async_for real_time_chunk ?s0 (take (i + k) chunks) None))
      \<and> sentence_count (locals_of (async_for real_time_chunk ?s0 (take i chunks) None))
        \<le> sentence_count (locals_of (async_for real_time_chunk ?s0 (take (i + k) chunks) None))"
  proof (cases "async_for real_time_chunk ?s0 (take i chunks) None")
    case (Inl x)
    then show ?thesis by (simp add: take_add async_for_append)
  next
    case (Inr st1)
    with async_for_real_time_mono [of st1 "take k (drop i chunks)" None]
    show ?thesis by (simp add: take_add async_for_append)
  qed
  from async_for_real_time_mono [of st chunks fault] later
  show ?thesis by (simp add: real_time_processing_demo_def)
qed

section \<open>Collecting the response\<close>

lemma content_texts_simps:
  "content_texts [] = []"
  "content_texts (c # cs) =
     (case chunk_content c of None \<Rightarrow> content_texts cs | Some t \<Rightarrow> t # content_texts cs)"
  by (simp_all add: content_texts_def map_filter_simps split: option.splits)

lemma collect_chunk_step:
  "choices c \<noteq> [] \<Longrightarrow>
   collect_chunk st c =
     Inr (case chunk_content c of
            None \<Rightarrow> st
          | Some t \<Rightarrow> st\<lparr>full_response := full_response st @ t, stdout := stdout st @ [Echo t]\<rparr>)"
  by (cases "choices c")
     (simp_all add: collect_chunk_def first_delta_def chunk_content_def split: option.splits)

lemma collect_run:
  assumes "\<forall>c\<in>set chunks. choices c \<noteq> []"
  shows "async_for collect_chunk st chunks fault =
     (let st' = \<lparr>full_response = full_response st @ concat (content_texts chunks),
                 stdout = stdout st @ map Echo (content_texts chunks)\<rparr>
      in case fault of None \<Rightarrow> Inr st' | Some e \<Rightarrow> Inl (e, st'))"
  using assms
proof (induction chunks arbitrary: st)
  case Nil
  show ?case by (cases fault) (simp_all add: content_texts_simps)
next
  case (Cons c cs)
  then have c: "choices c \<noteq> []" and cs: "\<forall>c\<in>set cs. choices c \<noteq> []" by simp_all
  show ?case
    by (cases "chunk_content c")
       (simp_all add: collect_chunk_step [OF c] Cons.IH [OF cs] content_texts_simps Let_def)
qed

lemma set_take_choices:
  "\<forall>c\<in>set chunks. choices c \<noteq> [] \<Longrightarrow> \<forall>c\<in>set (take n chunks). choices c \<noteq> []"
  by (auto dest: in_set_takeD)

lemma basic_chunk_rendered:
  "choices c \<noteq> [] \<Longrightarrow> rendered markup c \<Longrightarrow>
   basic_chunk markup st c =
     Inr (case chunk_content c of
            None \<Rightarrow> st
          | Some t \<Rightarrow> st\<lparr>full_response := full_response st @ t, stdout := stdout st @ [Echo t]\<rparr>)"
proof (cases "choices c")
  case Nil
  assume "choices c \<noteq> []"
  with Nil show ?thesis by simp
next
  case (Cons a rest)
  assume r: "rendered markup c"
  show ?thesis
  proof (cases "content (delta a)")
    case None
    with Cons show ?thesis
      by (simp add: basic_chunk_def first_delta_def chunk_content_def)
  next
    case (Some t)
    with Cons r have "markup t = None"
      by (simp add: rendered_def chunk_content_def)
    with Cons Some show ?thesis
      by (simp add: basic_chunk_def first_delta_def chunk_content_def Let_def)
  qed
qed



lemma basic_run_rendered:
  assumes "\<forall>c\<in>set chunks. choices c \<noteq> []" and "list_all (rendered markup) chunks"
  shows "async_for (basic_chunk markup) st chunks fault =
     (let st' = \<lparr>full_response = full_response st @ concat (content_texts chunks),
                 stdout = stdout st @ map Echo (content_texts chunks)\<rparr>
      in case fault of None \<Rightarrow> Inr st' | Some e \<Rightarrow> Inl (e, st'))"
  using assms
proof (induction chunks arbitrary: st)
  case Nil
  show ?case by (cases fault) (simp_all add: content_texts_simps)
next
  case (Cons c cs)
  then have c: "choices c \<noteq> []" "rendered markup c"
    and cs: "\<forall>c\<in>set cs. choices c \<noteq> []" "list_all (rendered markup) cs" by simp_all
  show ?case
    by (cases "chunk_content c")
       (simp_all add: basic_chunk_rendered [OF c] Cons.IH [OF cs] content_texts_simps Let_def)
qed





text \<open>
  C6 (as amended). When the stream raises an exception (a subclass of \<^verbatim>\<open>Exception\<close>)
  after some chunks, each with a first choice, no failure and no partial state reach the
  caller. \<^verbatim>\<open>streaming_with_collection\<close> catches it and returns normally without a result:
  the terminal shows the content of the chunks before the fault, echoed in order as they
  arrived, and then the error message. \<^verbatim>\<open>basic_streaming_demo\<close> does the same when the
  console renders every content and the line of the error; when it does not render that
  line, the \<^verbatim>\<open>MarkupError\<close> of the handler's own print leaves the function. In every
  case the collected response itself is not printed and not handed on.
\<close>

theorem stream_fault_is_caught_and_reported:
  assumes "\<forall>c\<in>set chunks. choices c \<noteq> []" and "is_Exception e"
  shows "streaming_with_collection chunks (Some e) out0 =
           (Inr (), out0 @ [Fixed, Fixed] @ map Echo (content_texts chunks) @ [Error e])
       \<and> (list_all (rendered markup) chunks \<and> markup (error_line e) = None \<longrightarrow>
            basic_streaming_demo markup chunks (Some e) out0 =
              (Inr (), out0 @ [Fixed] @ map Echo (content_texts chunks) @ [Error e]))
       \<and> (list_all (rendered markup) chunks \<and> markup (error_line e) = Some m \<longrightarrow>
            basic_streaming_demo markup chunks (Some e) out0 =
              (Inl (MarkupError m), out0 @ [Fixed] @ map Echo (content_texts chunks)))"
  using assms(2)
  by (simp add: collect_run [OF assms(1)] basic_run_rendered [OF assms(1)]
      streaming_with_collection_def basic_streaming_demo_def report_error_def)

theorem stream_fault_is_caught_and_reported_witness:
  "streaming_with_collection [content_chunk (lit ''ab''), content_chunk (lit ''cd'')]
      (Some (StreamError (lit ''reset''))) [] =
     (Inr (), [Fixed, Fixed, Echo (lit ''ab''), Echo (lit ''cd''), Error (StreamError (lit ''reset''))])
   \<and> basic_streaming_demo (refusing (lit ''[/x]'') (lit ''no open tag''))
      [content_chunk (lit ''ab''), content_chunk (lit ''cd'')] (Some (StreamError (lit ''reset''))) [] =
     (Inr (), [Fixed, Echo (lit ''ab''), Echo (lit ''cd''), Error (StreamError (lit ''reset''))])
   \<and> basic_streaming_demo
      (refusing (error_line (StreamError (lit ''bad tag [/x]''))) (lit ''no open tag''))
      [content_chunk (lit ''ab''), content_chunk (lit ''cd'')]
      (Some (StreamError (lit ''bad tag [/x]''))) [] =
     (Inl (MarkupError (lit ''no open tag'')), [Fixed, Echo (lit ''ab''), Echo (lit ''cd'')])"
proof -
  let ?chunks = "[content_chunk (lit ''ab''), content_chunk (lit ''cd'')]"
  let ?line = "error_line (StreamError (lit ''bad tag [/x]''))"
  have choices: "\<forall>c\<in>set ?chunks. choices c \<noteq> []"
    by (simp add: content_chunk_def)
  have texts: "content_texts ?chunks = [lit ''ab'', lit ''cd'']"
    by (simp add: content_chunk_def content_texts_simps chunk_content_def)
  have reads: "list_all (rendered (refusing (lit ''[/x]'') (lit ''no open tag''))) ?chunks"
    by (simp add: rendered_def refusing_def content_chunk_def chunk_content_def lit_def)
  have line: "refusing (lit ''[/x]'') (lit ''no open tag'') (error_line (StreamError (lit ''reset'')))
                = None"
    by (simp add: refusing_def error_line_def lit_def)
  have reads': "list_all (rendered (refusing ?line (lit ''no open tag''))) ?chunks"
    by (simp add: rendered_def refusing_def content_chunk_def chunk_content_def error_line_def
        lit_def)
  have line': "refusing ?line (lit ''no open tag'') ?line = Some (lit ''no open tag'')"
    by (simp add: refusing_def)
  note one = stream_fault_is_caught_and_reported
    [OF choices, of "StreamError (lit ''reset'')" "[]"
      "refusing (lit ''[/x]'') (lit ''no open tag'')" "[]", simplified texts]
  note two = stream_fault_is_caught_and_reported
    [OF choices, of "StreamError (lit ''bad tag [/x]'')" "[]"
      "refusing ?line (lit ''no open tag'')" "lit ''no open tag''", simplified texts]
  from one reads line two reads' line' show ?thesis by simp
qed

text \<open>
  C6 as stated fails: a stream that yields "ab" and "cd" and then raises makes
  \<^verbatim>\<open>streaming_with_collection\<close> return normally, with no value; the collected "abcd" is
  nowhere in its output.
\<close>

theorem stream_fault_counterexample:
  "streaming_with_collection [content_chunk (lit ''ab''), content_chunk (lit ''cd'')]
      (Some (StreamError (lit ''reset''))) [] =
     (Inr (), [Fixed, Fixed, Echo (lit ''ab''), Echo (lit ''cd''), Error (StreamError (lit ''reset''))])
   \<and> Collected (lit ''abcd'') \<notin> set (snd (streaming_with_collection
        [content_chunk (lit ''ab''), content_chunk (lit ''cd'')] (Some (StreamError (lit ''reset''))) []))"
  by (simp add: streaming_with_collection_def collect_chunk_def first_delta_def content_chunk_def lit_def)

text \<open>
  C7 (as amended). When the run is interrupted while the loop waits for the chunk after
  the first \<open>n\<close> (each with a first choice), the interruption leaves
  \<^verbatim>\<open>streaming_with_collection\<close> as an exception, no state is returned, and the round of
  \<^verbatim>\<open>main\<close> prints the notice of the interruption; the terminal then shows the content of
  exactly the first \<open>n\<close> chunks, echoed in order before the notice.
\<close>

theorem interruption_leaves_only_the_echo:
  assumes "\<forall>c\<in>set chunks. choices c \<noteq> []"
  shows "streaming_with_collection (take n chunks) (Some KeyboardInterrupt) out0 =
           (Inl KeyboardInterrupt, out0 @ [Fixed, Fixed] @ map Echo (content_texts (take n chunks)))
       \<and> run_example (streaming_with_collection (take n chunks) (Some KeyboardInterrupt)) out0 =
           out0 @ [Fixed, Fixed, Fixed, Fixed] @ map Echo (content_texts (take n chunks))
             @ [Interrupted, Fixed]"
  by (simp add: collect_run [OF set_take_choices [OF assms]] streaming_with_collection_def
      run_example_def)

theorem interruption_leaves_only_the_echo_witness:
  "streaming_with_collection (take 1 [content_chunk (lit ''ab''), content_chunk (lit ''cd'')])
      (Some KeyboardInterrupt) [] = (Inl KeyboardInterrupt, [Fixed, Fixed, Echo (lit ''ab'')])
   \<and> run_example (streaming_with_collection
        (take 1 [content_chunk (lit ''ab''), content_chunk (lit ''cd'')]) (Some KeyboardInterrupt)) [] =
      [Fixed, Fixed, Fixed, Fixed, Echo (lit ''ab''), Interrupted, Fixed]"
  using interruption_leaves_only_the_echo
    [of "[content_chunk (lit ''ab''), content_chunk (lit ''cd'')]" 1 "[]"]
  by (simp add: content_chunk_def content_texts_simps chunk_content_def lit_def)

text \<open>
  C7 as stated fails: interrupted after the first of two fragments, the example does not
  return a partial state tagged as cancelled; it is left by the exception.
\<close>

theorem interruption_counterexample:
  "fst (streaming_with_collection (take 1 [content_chunk (lit ''ab''), content_chunk (lit ''cd'')])
      (Some KeyboardInterrupt) []) = Inl KeyboardInterrupt
   \<and> run_example (streaming_with_collection
        (take 1 [content_chunk (lit ''ab''), content_chunk (lit ''cd'')]) (Some KeyboardInterrupt)) [] =
      [Fixed, Fixed, Fixed, Fixed, Echo (lit ''ab''), Interrupted, Fixed]"
  by (simp add: streaming_with_collection_def run_example_def collect_chunk_def first_delta_def
      content_chunk_def lit_def)

section \<open>Recording function calls\<close>

lemma extend_last_Nil [simp]: "extend_last [] a = []"
  by (simp add: extend_last_def)

lemma extend_last_snoc [simp]:
  "extend_last (cs @ [c]) a = cs @ [c\<lparr>call_arguments := call_arguments c @ a\<rparr>]"
  by (simp add: extend_last_def)

lemma extend_last_empty [simp]: "extend_last cs [] = cs"
  by (cases cs rule: rev_cases) simp_all

lemma extend_last_twice [simp]: "extend_last (extend_last cs a) b = extend_last cs (a @ b)"
  by (cases cs rule: rev_cases) simp_all







lemma orphan_step:
  "function_calls st = [] \<Longrightarrow> \<not> truthy nm \<Longrightarrow>
   function_calling_chunk markup st (Chunk (Choice (Delta None (Some (FunctionCall nm ar))) # rest))
     = Inr st"
  by (simp add: function_calling_chunk_def first_delta_def record_call_def)



text \<open>
  C5. When the loop has consumed some chunks without failing and has recorded no call,
  a chunk that carries only a function call without a name (an arguments delta) does not
  fail and leaves the whole state as it was; the loop over a stream with such a chunk at
  that place gives exactly what it gives over the stream without it, so every later chunk
  is processed as usual.
\<close>

theorem delta_without_call_is_ignored:
  assumes "async_for (function_calling_chunk markup) st0 pre None = Inr st"
    and "function_calls st = []" and "\<not> truthy nm"
  shows "function_calling_chunk markup st
             (Chunk (Choice (Delta None (Some (FunctionCall nm ar))) # rest))
           = Inr st
       \<and> async_for (function_calling_chunk markup) st0
             (pre @ Chunk (Choice (Delta None (Some (FunctionCall nm ar))) # rest) # post) fault
           = async_for (function_calling_chunk markup) st0 (pre @ post) fault"
  using assms by (simp add: async_for_append orphan_step)

theorem delta_without_call_is_ignored_witness:
  "function_calling_chunk (refusing (lit ''[/x]'') (lit ''no open tag''))
       \<lparr>function_calls = [], content_parts = [lit ''hi'']\<rparr> (args_chunk (lit ''x''))
     = Inr \<lparr>function_calls = [], content_parts = [lit ''hi'']\<rparr>
   \<and> function_calling_streaming_demo (refusing (lit ''[/x]'') (lit ''no open tag''))
       [content_chunk (lit ''hi''), args_chunk (lit ''x''), start_chunk (lit ''f''), args_chunk (lit ''y'')] None
     = function_calling_streaming_demo (refusing (lit ''[/x]'') (lit ''no open tag''))
       [content_chunk (lit ''hi''), start_chunk (lit ''f''), args_chunk (lit ''y'')] None
   \<and> function_calling_streaming_demo (refusing (lit ''[/x]'') (lit ''no open tag''))
       [content_chunk (lit ''hi''), args_chunk (lit ''x''), start_chunk (lit ''f''), args_chunk (lit ''y'')] None
     = Inr \<lparr>function_calls = [\<lparr>call_name = lit ''f'', call_arguments = lit ''y''\<rparr>],
            content_parts = [lit ''hi'']\<rparr>"
proof -
  let ?m = "refusing (lit ''[/x]'') (lit ''no open tag'')"
  have pre: "async_for (function_calling_chunk ?m) \<lparr>function_calls = [], content_parts = []\<rparr>
               [content_chunk (lit ''hi'')] None
             = Inr \<lparr>function_calls = [], content_parts = [lit ''hi'']\<rparr>"
    by (simp add: function_calling_chunk_def first_delta_def content_chunk_def record_call_def
        refusing_def lit_def)
  have falsy: "\<not> truthy None" by (simp add: truthy_def)
  have final: "function_calling_streaming_demo ?m
       [content_chunk (lit ''hi''), start_chunk (lit ''f''), args_chunk (lit ''y'')] None
     = Inr \<lparr>function_calls = [\<lparr>call_name = lit ''f'', call_arguments = lit ''y''\<rparr>],
            content_parts = [lit ''hi'']\<rparr>"
    by (simp add: function_calling_streaming_demo_def function_calling_chunk_def first_delta_def
        record_call_def refusing_def content_chunk_def start_chunk_def args_chunk_def truthy_def
        or_empty_def extend_last_def lit_def)
  from delta_without_call_is_ignored [OF pre _ falsy, of "Some (lit ''x'')" "[]"
      "[start_chunk (lit ''f''), args_chunk (lit ''y'')]" None] final
  show ?thesis by (simp add: function_calling_streaming_demo_def args_chunk_def)
qed

section \<open>Chunks without content\<close>

text \<open>
  C9 (as amended). A chunk whose first choice has no content leaves the state of the
  real-time loop (text, word count, sentence count) and of the two collecting loops
  (collected response, terminal) exactly as it was. In the loop that records function
  calls it leaves the content parts as they were. There the recorded calls stay as they
  were when the chunk has no function call, or one with neither name nor arguments, or
  one without a name while no call is recorded; a function call with a name appends a
  record with that name and the arguments of the chunk, and arguments without a name are
  appended to the arguments of the last record.
\<close>

theorem chunk_without_content_frame:
  "real_time_chunk st (Chunk (Choice (Delta None fc) # rest)) = Inr st
   \<and> collect_chunk cl (Chunk (Choice (Delta None fc) # rest)) = Inr cl
   \<and> basic_chunk markup cl (Chunk (Choice (Delta None fc) # rest)) = Inr cl
   \<and> function_calling_chunk markup cg (Chunk (Choice (Delta None None) # rest)) = Inr cg
   \<and> (n \<noteq> [] \<longrightarrow>
        function_calling_chunk markup cg
            (Chunk (Choice (Delta None (Some (FunctionCall (Some n) ar))) # rest))
          = Inr (cg\<lparr>function_calls := function_calls cg @
                   [\<lparr>call_name = n, call_arguments = (case ar of None \<Rightarrow> [] | Some a \<Rightarrow> a)\<rparr>]\<rparr>))
   \<and> (\<not> truthy nm \<and> function_calls cg = cs @ [c] \<longrightarrow>
        function_calling_chunk markup cg
            (Chunk (Choice (Delta None (Some (FunctionCall nm (Some a)))) # rest))
          = Inr (cg\<lparr>function_calls := cs @ [c\<lparr>call_arguments := call_arguments c @ a\<rparr>]\<rparr>))
   \<and> (\<not> truthy nm \<and> function_calls cg = [] \<longrightarrow>
        function_calling_chunk markup cg
            (Chunk (Choice (Delta None (Some (FunctionCall nm ar))) # rest)) = Inr cg)
   \<and> (\<not> truthy nm \<and> \<not> truthy ar \<longrightarrow>
        function_calling_chunk markup cg
            (Chunk (Choice (Delta None (Some (FunctionCall nm ar))) # rest)) = Inr cg)"
proof -
  have named: "n \<noteq> [] \<longrightarrow>
        function_calling_chunk markup cg
            (Chunk (Choice (Delta None (Some (FunctionCall (Some n) ar))) # rest))
          = Inr (cg\<lparr>function_calls := function_calls cg @
                   [\<lparr>call_name = n, call_arguments = (case ar of None \<Rightarrow> [] | Some a \<Rightarrow> a)\<rparr>]\<rparr>)"
    by (simp add: function_calling_chunk_def first_delta_def record_call_def truthy_def or_empty_def
        split: option.splits)
  have extends: "\<not> truthy nm \<and> function_calls cg = cs @ [c] \<longrightarrow>
        function_calling_chunk markup cg
            (Chunk (Choice (Delta None (Some (FunctionCall nm (Some a)))) # rest))
          = Inr (cg\<lparr>function_calls := cs @ [c\<lparr>call_arguments := call_arguments c @ a\<rparr>]\<rparr>)"
  proof (cases "a = []")
    case True
    then show ?thesis
      by (simp add: function_calling_chunk_def first_delta_def record_call_def truthy_def)
  next
    case False
    then show ?thesis
      by (simp add: function_calling_chunk_def first_delta_def record_call_def truthy_def
          or_empty_def)
  qed
  have orphan: "\<not> truthy nm \<and> function_calls cg = [] \<longrightarrow>
        function_calling_chunk markup cg
            (Chunk (Choice (Delta None (Some (FunctionCall nm ar))) # rest)) = Inr cg"
    by (simp add: orphan_step)
  have neither: "\<not> truthy nm \<and> \<not> truthy ar \<longrightarrow>
        function_calling_chunk markup cg
            (Chunk (Choice (Delta None (Some (FunctionCall nm ar))) # rest)) = Inr cg"
    by (simp add: function_calling_chunk_def first_delta_def record_call_def)
  have plain: "real_time_chunk st (Chunk (Choice (Delta None fc) # rest)) = Inr st
     \<and> collect_chunk cl (Chunk (Choice (Delta None fc) # rest)) = Inr cl
     \<and> basic_chunk markup cl (Chunk (Choice (Delta None fc) # rest)) = Inr cl
     \<and> function_calling_chunk markup cg (Chunk (Choice (Delta None None) # rest)) = Inr cg"
    by (simp add: real_time_chunk_def collect_chunk_def basic_chunk_def function_calling_chunk_def
        first_delta_def record_call_def)
  from plain named extends orphan neither show ?thesis by blast
qed

theorem chunk_without_content_frame_witness:
  "function_calling_chunk (refusing (lit ''[/x]'') (lit ''no open tag''))
       \<lparr>function_calls = [\<lparr>call_name = lit ''f'', call_arguments = lit ''{''\<rparr>], content_parts = [lit ''hi'']\<rparr>
       (Chunk [Choice (Delta None (Some (FunctionCall (Some (lit ''g'')) (Some (lit ''['')))))])
     = Inr \<lparr>function_calls = [\<lparr>call_name = lit ''f'', call_arguments = lit ''{''\<rparr>,
                               \<lparr>call_name = lit ''g'', call_arguments = lit ''[''\<rparr>],
            content_parts = [lit ''hi'']\<rparr>
   \<and> function_calling_chunk (refusing (lit ''[/x]'') (lit ''no open tag''))
       \<lparr>function_calls = [\<lparr>call_name = lit ''f'', call_arguments = lit ''{''\<rparr>], content_parts = [lit ''hi'']\<rparr>
       (args_chunk (lit ''}''))
     = Inr \<lparr>function_calls = [\<lparr>call_name = lit ''f'', call_arguments = lit ''{}''\<rparr>],
            content_parts = [lit ''hi'']\<rparr>
   \<and> function_calling_chunk (refusing (lit ''[/x]'') (lit ''no open tag''))
       \<lparr>function_calls = [], content_parts = [lit ''hi'']\<rparr> (args_chunk (lit ''}''))
     = Inr \<lparr>function_calls = [], content_parts = [lit ''hi'']\<rparr>
   \<and> function_calling_chunk (refusing (lit ''[/x]'') (lit ''no open tag''))
       \<lparr>function_calls = [\<lparr>call_name = lit ''f'', call_arguments = lit ''{''\<rparr>], content_parts = [lit ''hi'']\<rparr>
       (Chunk [Choice (Delta None (Some (FunctionCall None None)))])
     = Inr \<lparr>function_calls = [\<lparr>call_name = lit ''f'', call_arguments = lit ''{''\<rparr>],
            content_parts = [lit ''hi'']\<rparr>"
proof -
  let ?m = "refusing (lit ''[/x]'') (lit ''no open tag'')"
  let ?one = "\<lparr>function_calls = [\<lparr>call_name = lit ''f'', call_arguments = lit ''{''\<rparr>],
               content_parts = [lit ''hi'']\<rparr>"
  let ?none = "\<lparr>function_calls = [], content_parts = [lit ''hi'']\<rparr>"
  have falsy: "\<not> truthy None" by (simp add: truthy_def)
  have name: "lit ''g'' \<noteq> []" by (simp add: lit_def)
  note named = chunk_without_content_frame
    [where markup = ?m and cg = ?one and n = "lit ''g''" and ar = "Some (lit ''['')"
       and rest = "[]"]
  note extends = chunk_without_content_frame
    [where markup = ?m and cg = ?one and nm = None and a = "lit ''}''" and cs = "[]"
       and c = "\<lparr>call_name = lit ''f'', call_arguments = lit ''{''\<rparr>" and rest = "[]"]
  note orphan = chunk_without_content_frame
    [where markup = ?m and cg = ?none and nm = None and ar = "Some (lit ''}'')" and rest = "[]"]
  note neither = chunk_without_content_frame
    [where markup = ?m and cg = ?one and nm = None and ar = None and rest = "[]"]
  from named extends orphan neither falsy name show ?thesis
    by (simp add: args_chunk_def lit_def)
qed

text \<open>
  C9 as stated fails: the chunk that starts the call "f" has no content, and the recorded
  calls are not what they were before it.
\<close>

theorem chunk_without_content_counterexample:
  "chunk_content (start_chunk (lit ''f'')) = None
   \<and> function_calling_chunk (refusing (lit ''[/x]'') (lit ''no open tag''))
         \<lparr>function_calls = [], content_parts = []\<rparr> (start_chunk (lit ''f''))
       = Inr \<lparr>function_calls = [\<lparr>call_name = lit ''f'', call_arguments = []\<rparr>], content_parts = []\<rparr>
   \<and> function_calling_chunk (refusing (lit ''[/x]'') (lit ''no open tag''))
         \<lparr>function_calls = [], content_parts = []\<rparr> (start_chunk (lit ''f''))
       \<noteq> Inr \<lparr>function_calls = [], content_parts = []\<rparr>"
  by (simp add: function_calling_chunk_def first_delta_def record_call_def start_chunk_def
      chunk_content_def truthy_def or_empty_def lit_def)

end
